theory Spec2Isabelle
  imports Complex_Main
begin

section \<open>The Daytona workspace adapter (composio/tools/env/daytona/workspace.py)\<close>

text \<open>
  The adapter is a Python class with three operations (\<open>__init__\<close>, \<open>setup\<close>,
  \<open>teardown\<close>) that delegate to a vendor SDK (\<open>daytona_sdk\<close>) and to a base class
  (\<open>RemoteWorkspace\<close>). Neither the SDK nor the base class is part of the file, so every
  call that leaves the file is a field of the record \<open>world\<close>: a function that returns
  a value or raises. Each operation of the adapter returns what it raised (if anything),
  the attributes of \<open>self\<close> afterwards and the list of outside calls it made, in order.
\<close>

subsection \<open>Exceptions and values\<close>

datatype pyerr =
    ModuleNotFoundError string    \<comment> \<open>a subclass of ImportError; the module's name\<close>
  | ImportError string            \<comment> \<open>the name that cannot be imported\<close>
  | NameError string              \<comment> \<open>the name that is not defined\<close>
  | AttributeError string         \<comment> \<open>the attribute that is missing\<close>
  | TypeError
  | ValueError string             \<comment> \<open>the string that is not a float literal\<close>
  | ComposioSDKError string       \<comment> \<open>the message\<close>
  | Raised string                 \<comment> \<open>any exception raised by the SDK or the base class\<close>

text \<open>A Python float: a finite number, an infinity or a NaN.\<close>

datatype pyfloat = Finite real | PosInf | NegInf | NaN

datatype SandboxResources =
  SandboxResources (cpu: "int option") (gpu: "int option") (memory: "int option") (disk: "int option")

text \<open>
  \<open>Config\<close> (lines 29 to 64): a dataclass of optional fields, each \<open>None\<close> by
  default. The SDK's enumerations (\<open>CodeLanguage\<close>, \<open>SandboxTargetRegion\<close>) are string
  enumerations; dictionaries keep their insertion order, so they are association lists.
  The fields \<open>id\<close> and \<open>image\<close> carry a prime, since HOL has constants of these names.
  The fields inherited from \<open>WorkspaceConfigType\<close> are not read by this file.
\<close>

record Config =
  api_key :: "string option"
  language :: "string option"
  id' :: "string option"
  name :: "string option"
  image' :: "string option"
  env_vars :: "(string \<times> string) list option"
  labels :: "(string \<times> string) list option"
  public :: "bool option"
  target :: "string option"
  resources :: "SandboxResources option"
  auto_stop_interval :: "int option"

text \<open>The keyword arguments of \<open>DaytonaConfig(...)\<close> (lines 80 to 83).\<close>

record daytona_config =
  kw_api_key :: "string option"
  kw_server_url :: string

text \<open>The keyword arguments of \<open>CreateDaytonaSandboxParams(...)\<close> (lines 84 to 95).\<close>

record create_sandbox_params =
  kw_language :: "string option"
  kw_id :: "string option"
  kw_name :: "string option"
  kw_image :: "string option"
  kw_env_vars :: "(string \<times> string) list option"
  kw_labels :: "(string \<times> string) list option"
  kw_public :: "bool option"
  kw_target :: "string option"
  kw_resources :: "SandboxResources option"
  kw_auto_stop_interval :: "int option"

text \<open>
  The SDK's objects. The adapter reads \<open>server_url\<close> of the client and \<open>id\<close> of the
  sandbox handle, and nothing else.
\<close>

datatype client = Client (server_url: string)

datatype sandbox = Sandbox (sandbox_id: string)

datatype pyval =
    VNone
  | VBool bool
  | VInt int
  | VFloat pyfloat
  | VStr string
  | VList "pyval list"
  | VClient client
  | VParams create_sandbox_params
  | VSandbox sandbox

text \<open>An instance: what attribute lookup on \<open>self\<close> finds under each name.\<close>

type_synonym obj = "string \<Rightarrow> pyval option"

definition hasattr :: "obj \<Rightarrow> string \<Rightarrow> bool" where
  "hasattr self n = (self n \<noteq> None)"

definition getattr :: "obj \<Rightarrow> string \<Rightarrow> pyerr + pyval" where
  "getattr self n = (case self n of None \<Rightarrow> Inl (AttributeError n) | Some v \<Rightarrow> Inr v)"

subsection \<open>The calls that leave the file\<close>

datatype event =
    Call_RemoteWorkspace_init Config
  | Call_DaytonaConfig daytona_config
  | Call_Daytona daytona_config
  | Call_CreateDaytonaSandboxParams create_sandbox_params
  | Call_create client pyval
  | Call_get_preview_link sandbox int
  | Call_wait_for_sandbox_start sandbox pyfloat
  | Call_RemoteWorkspace_teardown
  | Call_remove client pyval

record world =
  RemoteWorkspace_init :: "Config \<Rightarrow> pyerr + obj"
    \<comment> \<open>\<open>super().__init__(config=config)\<close>: the attributes the base class leaves on \<open>self\<close>\<close>
  RemoteWorkspace_teardown :: "obj \<Rightarrow> pyerr + obj"
    \<comment> \<open>\<open>super().teardown()\<close>\<close>
  DaytonaConfig :: "daytona_config \<Rightarrow> pyerr + daytona_config"
  Daytona :: "daytona_config \<Rightarrow> pyerr + client"
  CreateDaytonaSandboxParams :: "create_sandbox_params \<Rightarrow> pyerr + create_sandbox_params"
  create :: "client \<Rightarrow> pyval \<Rightarrow> pyerr + sandbox"
  get_preview_link :: "sandbox \<Rightarrow> int \<Rightarrow> pyerr + string"
  wait_for_sandbox_start :: "sandbox \<Rightarrow> pyfloat \<Rightarrow> pyerr + unit"
  remove :: "client \<Rightarrow> pyval \<Rightarrow> pyerr + unit"
  float_of_str :: "string \<Rightarrow> pyfloat option"
    \<comment> \<open>the builtin \<open>float\<close> on a string: \<open>None\<close> where it raises ValueError\<close>

text \<open>The process environment, \<open>os.environ\<close>.\<close>

type_synonym environ = "string \<Rightarrow> string option"

definition environ_get :: "environ \<Rightarrow> string \<Rightarrow> pyval \<Rightarrow> pyval" where
  "environ_get env k d = (case env k of None \<Rightarrow> d | Some s \<Rightarrow> VStr s)"

text \<open>The builtin \<open>float\<close>: a float is returned as it is, a string is parsed.\<close>

definition py_float :: "world \<Rightarrow> pyval \<Rightarrow> pyerr + pyfloat" where
  "py_float w v =
     (case v of
        VFloat x \<Rightarrow> Inr x
      | VStr s \<Rightarrow>
          (case float_of_str w s of
             None \<Rightarrow> Inl (ValueError s)
           | Some x \<Rightarrow> Inr x)
      | VInt i \<Rightarrow> Inr (Finite (of_int i))
      | VBool b \<Rightarrow> Inr (Finite (if b then 1 else 0))
      | _ \<Rightarrow> Inl TypeError)"

text \<open>
  A method call on an attribute: the attribute has to exist and to be an object of the
  class that has the method.
\<close>

definition client_of :: "obj \<Rightarrow> string \<Rightarrow> pyerr + client" where
  "client_of self method =
     (case getattr self ''daytona'' of
        Inl e \<Rightarrow> Inl e
      | Inr (VClient c) \<Rightarrow> Inr c
      | Inr _ \<Rightarrow> Inl (AttributeError method))"

definition sandbox_of :: "obj \<Rightarrow> string \<Rightarrow> pyerr + sandbox" where
  "sandbox_of self method =
     (case getattr self ''daytona_sandbox'' of
        Inl e \<Rightarrow> Inl e
      | Inr (VSandbox sb) \<Rightarrow> Inr sb
      | Inr _ \<Rightarrow> Inl (AttributeError method))"

subsection \<open>Module level (lines 7 to 27)\<close>

text \<open>
  The installed \<open>daytona_sdk\<close>: \<open>None\<close> when the package cannot be imported, and the
  names it exports otherwise.
\<close>

type_synonym package = "string list option"

text \<open>\<open>from daytona_sdk import n\<close>.\<close>

definition import_from :: "package \<Rightarrow> string \<Rightarrow> pyerr option" where
  "import_from pkg n =
     (case pkg of
        None \<Rightarrow> Some (ModuleNotFoundError ''daytona_sdk'')
      | Some ns \<Rightarrow>
          if n \<in> set ns then None
          else Some (ImportError n))"

text \<open>
  The import of lines 14 to 20 binds its names one after the other, each under its
  alias, and stops at the first one the package does not export; \<open>except ImportError\<close>
  catches that failure. The result is whether all of them were bound, and the names bound.
\<close>

fun import_as :: "package \<Rightarrow> (string \<times> string) list \<Rightarrow> string list \<Rightarrow> bool \<times> string list" where
  "import_as pkg [] bound = (True, bound)"
| "import_as pkg ((n, alias) # rest) bound =
     (case import_from pkg n of
        None \<Rightarrow> import_as pkg rest (bound @ [alias])
      | Some e \<Rightarrow> (False, bound))"

definition guarded_imports :: "(string \<times> string) list" where
  "guarded_imports =
     [(''Daytona'', ''Daytona''),
      (''CodeLanguage'', ''SandboxCodeLanguage''),
      (''SandboxTargetRegion'', ''DaytonaSandboxTargetRegion''),
      (''SandboxResources'', ''DaytonaSandboxResources''),
      (''CreateSandboxParams'', ''CreateDaytonaSandboxParams'')]"

text \<open>
  The names of the SDK that the annotations of \<open>Config\<close> mention (lines 36, 57 and 60),
  in the order of the class body. The module does not postpone the evaluation of
  annotations, so the class body evaluates them when the class is defined.
\<close>

definition Config_annotations :: "string list" where
  "Config_annotations =
     [''SandboxCodeLanguage'', ''DaytonaSandboxTargetRegion'', ''DaytonaSandboxResources'']"

record module_globals =
  DAYTONA_INSTALLED :: bool

definition TOOLSERVER_PORT :: int where
  "TOOLSERVER_PORT = 8000"

text \<open>
  Executing the module: line 7 imports \<open>DaytonaConfig\<close> outside the \<open>try\<close>; lines 13
  to 25 set \<open>DAYTONA_INSTALLED\<close> to whether the guarded import went through; the body of
  \<open>Config\<close> then needs the names of its annotations.
\<close>

definition load_module :: "package \<Rightarrow> pyerr + module_globals" where
  "load_module pkg =
     (case import_from pkg ''DaytonaConfig'' of
        Some e \<Rightarrow> Inl e
      | None \<Rightarrow>
          (case import_as pkg guarded_imports [] of
             (installed, bound) \<Rightarrow>
               (case filter (\<lambda>n. n \<notin> set bound) Config_annotations of
                  n # _ \<Rightarrow> Inl (NameError n)
                | [] \<Rightarrow> Inr \<lparr>DAYTONA_INSTALLED = installed\<rparr>)))"

subsection \<open>DaytonaWorkspace\<close>

text \<open>
  What an operation leaves behind: the exception it raised (\<open>None\<close> when it returned),
  the attributes of \<open>self\<close>, and the outside calls it made.
\<close>

type_synonym outcome = "pyerr option \<times> obj \<times> event list"

definition raised :: "outcome \<Rightarrow> pyerr option" where
  "raised r = fst r"

definition self_after :: "outcome \<Rightarrow> obj" where
  "self_after r = fst (snd r)"

definition calls :: "outcome \<Rightarrow> event list" where
  "calls r = snd (snd r)"

definition missing_dependency :: string where
  "missing_dependency =
     ''`daytona` is required to use daytona workspace, '' @
     ''run `pip3 install composio-core[daytona]` or '' @
     ''`pip3 install daytona-sdk` to install''"

text \<open>\<open>__init__\<close> (lines 69 to 95).\<close>

definition init :: "world \<Rightarrow> module_globals \<Rightarrow> Config \<Rightarrow> outcome" where
  "init w g config =
     (if \<not> DAYTONA_INSTALLED g then (Some (ComposioSDKError missing_dependency), Map.empty, [])
      else
        (case RemoteWorkspace_init w config of
           Inl e \<Rightarrow> (Some e, Map.empty, [Call_RemoteWorkspace_init config])
         | Inr self \<Rightarrow>
             (let kw = \<lparr>kw_api_key = api_key config,
                        kw_server_url = ''https://app.daytona.io/api''\<rparr>
              in case DaytonaConfig w kw of
                   Inl e \<Rightarrow> (Some e, self, [Call_RemoteWorkspace_init config, Call_DaytonaConfig kw])
                 | Inr dc \<Rightarrow>
                     (case Daytona w dc of
                        Inl e \<Rightarrow>
                          (Some e, self,
                           [Call_RemoteWorkspace_init config, Call_DaytonaConfig kw, Call_Daytona dc])
                      | Inr c \<Rightarrow>
                          (let self1 = self(''daytona'' \<mapsto> VClient c);
                               pk = \<lparr>kw_language = language config,
                                     kw_id = id' config,
                                     kw_name = name config,
                                     kw_image = image' config,
                                     kw_env_vars = env_vars config,
                                     kw_labels = labels config,
                                     kw_public = public config,
                                     kw_target = target config,
                                     kw_resources = resources config,
                                     kw_auto_stop_interval = auto_stop_interval config\<rparr>;
                               tr = [Call_RemoteWorkspace_init config, Call_DaytonaConfig kw,
                                     Call_Daytona dc, Call_CreateDaytonaSandboxParams pk]
                           in case CreateDaytonaSandboxParams w pk of
                                Inl e \<Rightarrow> (Some e, self1, tr)
                              | Inr p \<Rightarrow>
                                  (None, self1(''daytona_create_sandbox_params'' \<mapsto> VParams p),
                                   tr))))))"

text \<open>
  Constructing a workspace in a fresh interpreter: the module is executed, then
  \<open>__init__\<close> runs.
\<close>

definition construct :: "package \<Rightarrow> world \<Rightarrow> Config \<Rightarrow> outcome" where
  "construct pkg w config =
     (case load_module pkg of
        Inl e \<Rightarrow> (Some e, Map.empty, [])
      | Inr g \<Rightarrow> init w g config)"

text \<open>\<open>_wait\<close> (lines 107 to 111).\<close>

definition wait :: "world \<Rightarrow> environ \<Rightarrow> obj \<Rightarrow> pyerr option \<times> event list" where
  "wait w env self =
     (case py_float w (environ_get env ''WORKSPACE_WAIT_TIMEOUT'' (VFloat (Finite 60))) of
        Inl e \<Rightarrow> (Some e, [])
      | Inr timeout \<Rightarrow>
          (case sandbox_of self ''wait_for_sandbox_start'' of
             Inl e \<Rightarrow> (Some e, [])
           | Inr sb \<Rightarrow>
               (case wait_for_sandbox_start w sb timeout of
                  Inl e \<Rightarrow> (Some e, [Call_wait_for_sandbox_start sb timeout])
                | Inr u \<Rightarrow> (None, [Call_wait_for_sandbox_start sb timeout]))))"

text \<open>
  \<open>setup\<close> (lines 98 to 105), here \<open>setup_workspace\<close> since the plain name is
  a keyword of Isabelle. Line 102 reads \<open>self.daytona\<close> and
  \<open>self.daytona_sandbox\<close> again; they are the client read and the handle stored by line
  101.
\<close>

definition setup_workspace :: "world \<Rightarrow> environ \<Rightarrow> obj \<Rightarrow> outcome" where
  "setup_workspace w env self =
     (case client_of self ''create'' of
        Inl e \<Rightarrow> (Some e, self, [])
      | Inr c \<Rightarrow>
          (case getattr self ''daytona_create_sandbox_params'' of
             Inl e \<Rightarrow> (Some e, self, [])
           | Inr p \<Rightarrow>
               (case create w c p of
                  Inl e \<Rightarrow> (Some e, self, [Call_create c p])
                | Inr sb \<Rightarrow>
                    (let self1 = self(''daytona_sandbox'' \<mapsto> VSandbox sb);
                         self2 = self1(''url'' \<mapsto>
                                   VStr (server_url c @ ''/toolbox/'' @ sandbox_id sb @ ''/toolbox''));
                         tr = [Call_create c p, Call_get_preview_link sb TOOLSERVER_PORT]
                     in case get_preview_link w sb TOOLSERVER_PORT of
                          Inl e \<Rightarrow> (Some e, self2, tr)
                        | Inr h \<Rightarrow>
                            (let self3 = self2(''host'' \<mapsto> VStr h);
                                 self4 = self3(''ports'' \<mapsto> VList [])
                             in case wait w env self4 of
                                  (r, tr') \<Rightarrow> (r, self4, tr @ tr'))))))"

text \<open>\<open>teardown\<close> (lines 113 to 118).\<close>

definition teardown :: "world \<Rightarrow> obj \<Rightarrow> outcome" where
  "teardown w self =
     (case RemoteWorkspace_teardown w self of
        Inl e \<Rightarrow> (Some e, self, [Call_RemoteWorkspace_teardown])
      | Inr self' \<Rightarrow>
          (if \<not> hasattr self' ''sandbox'' then (None, self', [Call_RemoteWorkspace_teardown])
           else
             (case getattr self' ''daytona_sandbox'' of
                Inl e \<Rightarrow> (Some e, self', [Call_RemoteWorkspace_teardown])
              | Inr v \<Rightarrow>
                  (if v = VNone then (None, self', [Call_RemoteWorkspace_teardown])
                   else
                     (case client_of self' ''remove'' of
                        Inl e \<Rightarrow> (Some e, self', [Call_RemoteWorkspace_teardown])
                      | Inr c \<Rightarrow>
                          (case remove w c v of
                             Inl e \<Rightarrow>
                               (Some e, self', [Call_RemoteWorkspace_teardown, Call_remove c v])
                           | Inr u \<Rightarrow>
                               (None, self', [Call_RemoteWorkspace_teardown, Call_remove c v])))))))"

subsection \<open>An example world\<close>

text \<open>
  A \<open>daytona_sdk\<close> that exports every name the module imports, a world in which every
  outside call succeeds and the base class keeps no attribute of its own, and a
  configuration. Of the float literals, this world's \<open>float\<close> reads only \<open>30\<close>, the one
  the examples use. The examples below run the adapter in this world.
\<close>

definition full_sdk :: package where
  "full_sdk =
     Some [''Daytona'', ''DaytonaConfig'', ''CodeLanguage'', ''SandboxTargetRegion'',
           ''SandboxResources'', ''CreateSandboxParams'']"

definition example_world :: world where
  "example_world =
     \<lparr>RemoteWorkspace_init = (\<lambda>config. Inr Map.empty),
      RemoteWorkspace_teardown = (\<lambda>self. Inr self),
      DaytonaConfig = (\<lambda>kw. Inr kw),
      Daytona = (\<lambda>dc. Inr (Client (kw_server_url dc))),
      CreateDaytonaSandboxParams = (\<lambda>kw. Inr kw),
      create = (\<lambda>c p. Inr (Sandbox ''sandbox-1'')),
      get_preview_link = (\<lambda>sb port. Inr (''https://preview.example/'' @ sandbox_id sb)),
      wait_for_sandbox_start = (\<lambda>sb timeout. Inr ()),
      remove = (\<lambda>c v. Inr ()),
      float_of_str = (\<lambda>s. if s = ''30'' then Some (Finite 30) else None)\<rparr>"

definition example_config :: Config where
  "example_config =
     \<lparr>api_key = Some ''key-1'', language = Some ''python'', id' = None, name = Some ''demo'',
      image' = None, env_vars = Some [(''A'', ''1'')], labels = None, public = Some False,
      target = Some ''eu'', resources = Some (SandboxResources (Some 2) None (Some 4) None),
      auto_stop_interval = Some 0\<rparr>"

text \<open>The keyword arguments the example configuration leads to.\<close>

definition example_params :: create_sandbox_params where
  "example_params =
     \<lparr>kw_language = Some ''python'', kw_id = None, kw_name = Some ''demo'',
      kw_image = None, kw_env_vars = Some [(''A'', ''1'')], kw_labels = None,
      kw_public = Some False, kw_target = Some ''eu'',
      kw_resources = Some (SandboxResources (Some 2) None (Some 4) None),
      kw_auto_stop_interval = Some 0\<rparr>"


text \<open>The workspace after construction, and after construction and \<open>setup\<close>.\<close>

definition constructed :: obj where
  "constructed = self_after (construct full_sdk example_world example_config)"

definition ready :: obj where
  "ready = self_after (setup_workspace example_world Map.empty constructed)"

section \<open>Facts about the model\<close>

subsection \<open>The example world, evaluated\<close>

lemma load_module_full_sdk: "load_module full_sdk = Inr \<lparr>DAYTONA_INSTALLED = True\<rparr>"
  by (simp add: load_module_def full_sdk_def import_from_def guarded_imports_def
      Config_annotations_def)

lemma construct_example:
  "construct full_sdk example_world example_config =
     (None,
      [''daytona'' \<mapsto> VClient (Client ''https://app.daytona.io/api''),
       ''daytona_create_sandbox_params'' \<mapsto>
         VParams \<lparr>kw_language = Some ''python'', kw_id = None, kw_name = Some ''demo'',
                  kw_image = None, kw_env_vars = Some [(''A'', ''1'')], kw_labels = None,
                  kw_public = Some False, kw_target = Some ''eu'',
                  kw_resources = Some (SandboxResources (Some 2) None (Some 4) None),
                  kw_auto_stop_interval = Some 0\<rparr>],
      [Call_RemoteWorkspace_init example_config,
       Call_DaytonaConfig \<lparr>kw_api_key = Some ''key-1'',
                            kw_server_url = ''https://app.daytona.io/api''\<rparr>,
       Call_Daytona \<lparr>kw_api_key = Some ''key-1'',
                      kw_server_url = ''https://app.daytona.io/api''\<rparr>,
       Call_CreateDaytonaSandboxParams
         \<lparr>kw_language = Some ''python'', kw_id = None, kw_name = Some ''demo'',
          kw_image = None, kw_env_vars = Some [(''A'', ''1'')], kw_labels = None,
          kw_public = Some False, kw_target = Some ''eu'',
          kw_resources = Some (SandboxResources (Some 2) None (Some 4) None),
          kw_auto_stop_interval = Some 0\<rparr>])"
  by (simp add: construct_def load_module_full_sdk init_def example_world_def example_config_def Let_def)

lemma constructed_eq:
  "constructed =
     [''daytona'' \<mapsto> VClient (Client ''https://app.daytona.io/api''),
      ''daytona_create_sandbox_params'' \<mapsto> VParams example_params]"
  by (simp add: constructed_def construct_example self_after_def example_params_def)

lemma setup_example:
  "env ''WORKSPACE_WAIT_TIMEOUT'' = None \<or> env ''WORKSPACE_WAIT_TIMEOUT'' = Some ''30'' \<Longrightarrow>
   setup_workspace example_world env constructed =
     (None,
      constructed
        (''daytona_sandbox'' \<mapsto> VSandbox (Sandbox ''sandbox-1''),
         ''url'' \<mapsto> VStr ''https://app.daytona.io/api/toolbox/sandbox-1/toolbox'',
         ''host'' \<mapsto> VStr ''https://preview.example/sandbox-1'',
         ''ports'' \<mapsto> VList []),
      [Call_create (Client ''https://app.daytona.io/api'') (VParams example_params),
       Call_get_preview_link (Sandbox ''sandbox-1'') 8000,
       Call_wait_for_sandbox_start (Sandbox ''sandbox-1'')
         (if env ''WORKSPACE_WAIT_TIMEOUT'' = None then Finite 60 else Finite 30)])"
  by (auto simp: setup_workspace_def wait_def py_float_def environ_get_def client_of_def
      sandbox_of_def getattr_def TOOLSERVER_PORT_def Let_def constructed_eq example_world_def)

subsection \<open>What a run that returns has done\<close>





lemma setup_returns:
  assumes "raised (setup_workspace w env self) = None"
  shows "\<exists>c p sb h t.
           self ''daytona'' = Some (VClient c) \<and>
           self ''daytona_create_sandbox_params'' = Some p \<and>
           create w c p = Inr sb \<and>
           get_preview_link w sb 8000 = Inr h \<and>
           py_float w (environ_get env ''WORKSPACE_WAIT_TIMEOUT'' (VFloat (Finite 60))) = Inr t \<and>
           wait_for_sandbox_start w sb t = Inr () \<and>
           setup_workspace w env self =
             (None,
              self(''daytona_sandbox'' \<mapsto> VSandbox sb,
                   ''url'' \<mapsto> VStr (server_url c @ ''/toolbox/'' @ sandbox_id sb @ ''/toolbox''),
                   ''host'' \<mapsto> VStr h,
                   ''ports'' \<mapsto> VList []),
              [Call_create c p, Call_get_preview_link sb 8000,
               Call_wait_for_sandbox_start sb t])"
  using assms
  by (auto simp: setup_workspace_def wait_def client_of_def sandbox_of_def getattr_def
      TOOLSERVER_PORT_def raised_def Let_def
      split: sum.splits option.splits pyval.splits prod.splits)

lemma wait_unparsable:
  assumes "env ''WORKSPACE_WAIT_TIMEOUT'' = Some s" and "float_of_str w s = None"
  shows "wait w env self = (Some (ValueError s), [])"
  using assms by (simp add: wait_def py_float_def environ_get_def)

subsection \<open>The guard of \<open>teardown\<close>\<close>


lemma teardown_with_sandbox_attribute:
  assumes "RemoteWorkspace_teardown w self = Inr self'"
    and "self' ''sandbox'' = Some x"
    and "self' ''daytona_sandbox'' = None"
  shows "teardown w self =
           (Some (AttributeError ''daytona_sandbox''), self', [Call_RemoteWorkspace_teardown])"
  using assms by (simp add: teardown_def hasattr_def getattr_def)

subsection \<open>The guard of \<open>__init__\<close>\<close>

text \<open>
  With \<open>DAYTONA_INSTALLED\<close> false, \<open>__init__\<close> raises the error that names the missing
  dependency. The module reaches that state when \<open>daytona_sdk\<close> can be imported but lacks
  \<open>CreateSandboxParams\<close>, the one guarded name that no annotation of \<open>Config\<close> needs.
\<close>

lemma init_guard:
  "init w \<lparr>DAYTONA_INSTALLED = False\<rparr> config =
     (Some (ComposioSDKError missing_dependency), Map.empty, [])"
  by (simp add: init_def)

lemma construct_guard_reached:
  "construct (Some [''Daytona'', ''DaytonaConfig'', ''CodeLanguage'', ''SandboxTargetRegion'',
                    ''SandboxResources'']) w config =
     (Some (ComposioSDKError missing_dependency), Map.empty, [])"
  by (simp add: construct_def load_module_def import_from_def guarded_imports_def
      Config_annotations_def init_def)

lemma load_module_None: "load_module None = Inl (ModuleNotFoundError ''daytona_sdk'')"
  by (simp add: load_module_def import_from_def)

section \<open>The claims\<close>

text \<open>
  C1. After \<open>setup\<close> has completed, \<open>teardown\<close> should delegate to the base class and
  then call the provider's delete operation on the stored handle. In the example world
  \<open>setup\<close> returns and stores the handle of the sandbox under \<open>daytona_sandbox\<close>, and
  \<open>teardown\<close> then returns after the base class's teardown alone: the provider's
  \<open>remove\<close> is not called, since the guard of line 117 looks for an attribute
  \<open>sandbox\<close> that the workspace does not have.
\<close>

theorem teardown_after_setup_skips_remove:
  "raised (setup_workspace example_world Map.empty constructed) = None \<and>
   ready ''daytona_sandbox'' = Some (VSandbox (Sandbox ''sandbox-1'')) \<and>
   ready ''daytona'' = Some (VClient (Client ''https://app.daytona.io/api'')) \<and>
   raised (teardown example_world ready) = None \<and>
   calls (teardown example_world ready) = [Call_RemoteWorkspace_teardown] \<and>
   Call_remove (Client ''https://app.daytona.io/api'') (VSandbox (Sandbox ''sandbox-1''))
     \<notin> set (calls (teardown example_world ready))"
proof -
  have r: "ready =
             constructed
               (''daytona_sandbox'' \<mapsto> VSandbox (Sandbox ''sandbox-1''),
                ''url'' \<mapsto> VStr ''https://app.daytona.io/api/toolbox/sandbox-1/toolbox'',
                ''host'' \<mapsto> VStr ''https://preview.example/sandbox-1'',
                ''ports'' \<mapsto> VList [])"
    by (simp add: ready_def setup_example self_after_def)
  have t: "teardown example_world ready = (None, ready, [Call_RemoteWorkspace_teardown])"
    by (simp add: teardown_def hasattr_def example_world_def r constructed_eq)
  show ?thesis
    by (simp add: t raised_def calls_def setup_example) (simp add: r constructed_eq)
qed

text \<open>
  C2. Without an importable \<open>daytona_sdk\<close>, constructing a workspace should raise a
  \<open>ComposioSDKError\<close> that names the missing dependency. Whatever the world and the
  configuration, it raises \<open>ModuleNotFoundError\<close> instead: the import of line 7 is
  outside the \<open>try\<close>, so the module stops there, before \<open>DAYTONA_INSTALLED\<close> is set and
  before \<open>__init__\<close> can test it. No outside call is made.
\<close>

theorem construct_without_sdk:
  "construct None w config = (Some (ModuleNotFoundError ''daytona_sdk''), Map.empty, [])"
  by (simp add: construct_def load_module_None)





text \<open>
  C5. After a \<open>setup\<close> that returns, \<open>url\<close> is the \<open>server_url\<close> of the client
  kept in \<open>daytona\<close>, followed by \<open>/toolbox/\<close>, the identifier of the sandbox that the
  create call returned, and \<open>/toolbox\<close>.
\<close>

theorem setup_url:
  assumes "raised (setup_workspace w env self) = None"
  shows "\<exists>c p sb.
           self ''daytona'' = Some (VClient c) \<and>
           self ''daytona_create_sandbox_params'' = Some p \<and>
           Call_create c p \<in> set (calls (setup_workspace w env self)) \<and>
           create w c p = Inr sb \<and>
           self_after (setup_workspace w env self) ''url'' =
             Some (VStr (server_url c @ ''/toolbox/'' @ sandbox_id sb @ ''/toolbox''))"
  using setup_returns [OF assms] by (auto simp: self_after_def calls_def)

theorem setup_url_witness:
  "raised (setup_workspace example_world Map.empty constructed) = None \<and>
   constructed ''daytona'' = Some (VClient (Client ''https://app.daytona.io/api'')) \<and>
   Call_create (Client ''https://app.daytona.io/api'') (VParams example_params)
     \<in> set (calls (setup_workspace example_world Map.empty constructed)) \<and>
   create example_world (Client ''https://app.daytona.io/api'') (VParams example_params) =
     Inr (Sandbox ''sandbox-1'') \<and>
   self_after (setup_workspace example_world Map.empty constructed) ''url'' =
     Some (VStr ''https://app.daytona.io/api/toolbox/sandbox-1/toolbox'')"
proof -
  have ok: "raised (setup_workspace example_world Map.empty constructed) = None"
    by (simp add: setup_example raised_def)
  from setup_url [OF ok] ok show ?thesis
    by (simp add: setup_example self_after_def calls_def constructed_eq example_world_def)
qed

text \<open>
  C6. After a \<open>setup\<close> that returns, \<open>host\<close> is what \<open>get_preview_link\<close> returned for
  the created sandbox and port 8000; and \<open>setup\<close> asks for a preview link of no other
  port, whatever the workspace and the environment.
\<close>

theorem setup_host:
  "(raised (setup_workspace w env self) = None \<longrightarrow>
      (\<exists>c p sb h.
         self ''daytona'' = Some (VClient c) \<and>
         self ''daytona_create_sandbox_params'' = Some p \<and>
         create w c p = Inr sb \<and>
         Call_get_preview_link sb 8000 \<in> set (calls (setup_workspace w env self)) \<and>
         get_preview_link w sb 8000 = Inr h \<and>
         self_after (setup_workspace w env self) ''host'' = Some (VStr h))) \<and>
   (Call_get_preview_link sb' port \<in> set (calls (setup_workspace w env self)) \<longrightarrow>
      port = 8000)"
proof (intro conjI impI)
  assume ok: "raised (setup_workspace w env self) = None"
  from setup_returns [OF ok]
  show "\<exists>c p sb h.
         self ''daytona'' = Some (VClient c) \<and>
         self ''daytona_create_sandbox_params'' = Some p \<and>
         create w c p = Inr sb \<and>
         Call_get_preview_link sb 8000 \<in> set (calls (setup_workspace w env self)) \<and>
         get_preview_link w sb 8000 = Inr h \<and>
         self_after (setup_workspace w env self) ''host'' = Some (VStr h)"
    by (auto simp: self_after_def calls_def)
next
  assume "Call_get_preview_link sb' port \<in> set (calls (setup_workspace w env self))"
  then show "port = 8000"
    by (auto simp: setup_workspace_def wait_def calls_def TOOLSERVER_PORT_def Let_def
        split: sum.splits prod.splits)
qed

theorem setup_host_witness:
  "raised (setup_workspace example_world Map.empty constructed) = None \<and>
   Call_get_preview_link (Sandbox ''sandbox-1'') 8000
     \<in> set (calls (setup_workspace example_world Map.empty constructed)) \<and>
   get_preview_link example_world (Sandbox ''sandbox-1'') 8000 =
     Inr ''https://preview.example/sandbox-1'' \<and>
   self_after (setup_workspace example_world Map.empty constructed) ''host'' =
     Some (VStr ''https://preview.example/sandbox-1'')"
proof -
  have ok: "raised (setup_workspace example_world Map.empty constructed) = None"
    by (simp add: setup_example raised_def)
  have call: "Call_get_preview_link (Sandbox ''sandbox-1'') 8000
                \<in> set (calls (setup_workspace example_world Map.empty constructed))"
    by (simp add: setup_example calls_def)
  from setup_host [of example_world Map.empty constructed "Sandbox ''sandbox-1''" 8000] ok call
  show ?thesis
    by (simp add: setup_example self_after_def example_world_def)
qed





text \<open>
  C9. After a \<open>setup\<close> that returns, \<open>ports\<close> is the empty list.
\<close>

theorem setup_ports:
  assumes "raised (setup_workspace w env self) = None"
  shows "self_after (setup_workspace w env self) ''ports'' = Some (VList [])"
  using setup_returns [OF assms] by (auto simp: self_after_def)

theorem setup_ports_witness:
  "raised (setup_workspace example_world Map.empty constructed) = None \<and>
   self_after (setup_workspace example_world Map.empty constructed) ''ports'' = Some (VList [])"
proof -
  have ok: "raised (setup_workspace example_world Map.empty constructed) = None"
    by (simp add: setup_example raised_def)
  from setup_ports [OF ok] ok show ?thesis by simp
qed

text \<open>
  C10. When \<open>WORKSPACE_WAIT_TIMEOUT\<close> is set to a string that \<open>float\<close> rejects, and the
  create call and the preview link succeed, \<open>setup\<close> raises \<open>ValueError\<close> for that
  string after these two calls and never calls \<open>wait_for_sandbox_start\<close>: there is no
  fall-back to 60 seconds.
\<close>

theorem unparsable_timeout_raises:
  assumes "env ''WORKSPACE_WAIT_TIMEOUT'' = Some s"
    and "float_of_str w s = None"
    and "self ''daytona'' = Some (VClient c)"
    and "self ''daytona_create_sandbox_params'' = Some p"
    and "create w c p = Inr sb"
    and "get_preview_link w sb 8000 = Inr h"
  shows "raised (setup_workspace w env self) = Some (ValueError s) \<and>
         calls (setup_workspace w env self) = [Call_create c p, Call_get_preview_link sb 8000]"
  using assms
  by (simp add: setup_workspace_def wait_def py_float_def environ_get_def client_of_def
      getattr_def TOOLSERVER_PORT_def raised_def calls_def Let_def)

theorem unparsable_timeout_raises_witness:
  "float_of_str example_world ''soon'' = None \<and>
   raised (setup_workspace example_world [''WORKSPACE_WAIT_TIMEOUT'' \<mapsto> ''soon''] constructed) =
     Some (ValueError ''soon'') \<and>
   calls (setup_workspace example_world [''WORKSPACE_WAIT_TIMEOUT'' \<mapsto> ''soon''] constructed) =
     [Call_create (Client ''https://app.daytona.io/api'') (VParams example_params),
      Call_get_preview_link (Sandbox ''sandbox-1'') 8000]"
proof -
  have a: "[''WORKSPACE_WAIT_TIMEOUT'' \<mapsto> ''soon''] ''WORKSPACE_WAIT_TIMEOUT'' = Some ''soon''"
    by simp
  have b: "float_of_str example_world ''soon'' = None"
    by (simp add: example_world_def)
  have c: "constructed ''daytona'' = Some (VClient (Client ''https://app.daytona.io/api''))"
    and d: "constructed ''daytona_create_sandbox_params'' = Some (VParams example_params)"
    by (simp_all add: constructed_eq)
  have e: "create example_world (Client ''https://app.daytona.io/api'') (VParams example_params) =
             Inr (Sandbox ''sandbox-1'')"
    and f: "get_preview_link example_world (Sandbox ''sandbox-1'') 8000 =
             Inr ''https://preview.example/sandbox-1''"
    by (simp_all add: example_world_def)
  from unparsable_timeout_raises
         [where env = "[''WORKSPACE_WAIT_TIMEOUT'' \<mapsto> ''soon'']" and s = "''soon''"
            and w = example_world and self = constructed
            and c = "Client ''https://app.daytona.io/api''" and p = "VParams example_params"
            and sb = "Sandbox ''sandbox-1''" and h = "''https://preview.example/sandbox-1''"]
       a b c d e f
  show ?thesis by simp
qed

end
